theory Spec2Isabelle
  imports Complex_Main
begin

section \<open>Integrated gradients for a served ResNet: the notebook's numerical core\<close>

text \<open>
  The development embeds the cells of \<^verbatim>\<open>resnet_model_understanding.ipynb\<close> that
  carry the algorithm: image normalisation, the construction of the path of images, the
  weighted gradients, the accumulation loop, the visualisation arrays, the final sanity
  print and the label lookup.

  Conventions of the embedding.
  \<^item> A pixel array of shape \<open>[224, 224, 3]\<close> is the list of its pixels in row-major
    order; a tensor with a leading batch axis is a list of such arrays. The number of
    pixels of one array is the parameter \<open>d\<close> wherever the source writes the shape
    literal; the source's value is \<open>pixels\<close>.
  \<^item> Pixel values are real numbers: \<open>float32\<close> and \<open>float64\<close> arithmetic is
    idealised, rounding is not modelled. Division keeps the one effect of IEEE arithmetic
    that the source can reach without rounding, division by zero (type \<open>np_float\<close>).
  \<^item> \<open>RIEMANN_STEPS\<close> is the parameter \<open>N\<close> of every function that reads it; the
    notebook's value is the constant below.
  \<^item> The network \<open>imagenet_resnet_v2\<close> and the differentiation \<open>tf.gradients\<close> belong
    to the framework; they are parameters \<open>network\<close> and \<open>tf_gradients\<close>.
\<close>

subsection \<open>Constants (cell 3)\<close>

definition DEFAULT_IMAGE_SIZE :: nat where
  "DEFAULT_IMAGE_SIZE = 224"

definition NUM_CHANNELS :: nat where
  "NUM_CHANNELS = 3"

definition LABEL_CLASSES :: nat where
  "LABEL_CLASSES = 1001"

definition RIEMANN_STEPS :: int where
  "RIEMANN_STEPS = 30"

definition pixels :: nat where
  "pixels = DEFAULT_IMAGE_SIZE * DEFAULT_IMAGE_SIZE * NUM_CHANNELS"

subsection \<open>Tensors and errors\<close>

type_synonym image = "real list"

type_synonym batch = "image list"

text \<open>
  \<open>FrameworkError\<close> stands for an exception raised by TensorFlow (operands of unequal
  shape, a slice out of range); the others are the Python exceptions of those names.
\<close>

datatype error = FrameworkError | ValueError | IndexError | StopIteration

text \<open>
  A \<open>float64\<close> that a division produced: numpy's true division raises nothing on a zero
  divisor, it yields \<open>nan\<close> for \<open>0 / 0\<close> and a signed infinity otherwise.
\<close>

datatype np_float = Val real | PosInf | NegInf | NaN

definition np_truediv :: "real \<Rightarrow> real \<Rightarrow> np_float" where
  "np_truediv a b =
     (if b \<noteq> 0 then Val (a / b)
      else if a = 0 then NaN
      else if 0 < a then PosInf else NegInf)"

fun np_plus :: "np_float \<Rightarrow> real \<Rightarrow> np_float" where
  "np_plus (Val a) b = Val (a + b)"
| "np_plus PosInf b = PosInf"
| "np_plus NegInf b = NegInf"
| "np_plus NaN b = NaN"

definition np_sum :: "image \<Rightarrow> real" where
  "np_sum a = sum_list a"

text \<open>
  \<open>np.add\<close> on two pixel arrays: elementwise; an array of one element is broadcast; any
  other pair of unequal sizes is a \<open>ValueError\<close>.
\<close>

definition np_add :: "image \<Rightarrow> image \<Rightarrow> error + image" where
  "np_add a b =
     (if length a = length b then Inr (map2 (+) a b)
      else if length b = 1 then Inr (map (\<lambda>x. x + b ! 0) a)
      else if length a = 1 then Inr (map (\<lambda>y. a ! 0 + y) b)
      else Inl ValueError)"

text \<open>Indexing a Python list: a negative index counts from the end.\<close>

definition py_index :: "'a list \<Rightarrow> int \<Rightarrow> error + 'a" where
  "py_index xs i =
     (if 0 \<le> i \<and> i < int (length xs) then Inr (xs ! nat i)
      else if i < 0 \<and> - int (length xs) \<le> i then Inr (xs ! nat (int (length xs) + i))
      else Inl IndexError)"

subsection \<open>Image normalisation (cell 11)\<close>

text \<open>\<^verbatim>\<open>return tf.to_float(images) / 255 - 0.5\<close>\<close>

definition preprocess_images :: "batch \<Rightarrow> batch" where
  "preprocess_images images = map (map (\<lambda>x. x / 255 - 0.5)) images"

subsection \<open>The path of images (cell 15, the loop over \<open>range(1, RIEMANN_STEPS + 1)\<close>)\<close>

definition tf_zeros :: "nat \<Rightarrow> nat \<Rightarrow> batch" where
  "tf_zeros b d = replicate b (replicate d 0)"

text \<open>
  \<open>tf.concat(..., axis=0)\<close> appends along the batch axis; the framework rejects operands
  whose remaining axes differ.
\<close>

definition tf_concat :: "batch \<Rightarrow> batch \<Rightarrow> error + batch" where
  "tf_concat a b =
     (if list_all (\<lambda>x. list_all (\<lambda>y. length x = length y) b) a
      then Inr (a @ b) else Inl FrameworkError)"

text \<open>\<^verbatim>\<open>features * i / RIEMANN_STEPS\<close>, multiplication first.\<close>

definition scale_features :: "batch \<Rightarrow> int \<Rightarrow> int \<Rightarrow> batch" where
  "scale_features features i N = map (map (\<lambda>x. x * real_of_int i / real_of_int N)) features"

fun path_loop :: "int \<Rightarrow> batch \<Rightarrow> int list \<Rightarrow> batch \<Rightarrow> error + batch" where
  "path_loop N features [] path = Inr path"
| "path_loop N features (i # rest) path =
     (case tf_concat path (scale_features features i N) of
        Inl e \<Rightarrow> Inl e
      | Inr path' \<Rightarrow> path_loop N features rest path')"

text \<open>
  \<^verbatim>\<open>path_features = tf.zeros([1, 224, 224, 3])\<close> followed by the loop; \<open>d\<close> is the
  number of pixels of the shape literal.
\<close>

definition path_features :: "nat \<Rightarrow> int \<Rightarrow> batch \<Rightarrow> error + batch" where
  "path_features d N features = path_loop N features [1..N] (tf_zeros 1 d)"

subsection \<open>The gradients model function (cell 15)\<close>

datatype mode_keys = TRAIN | EVAL | PREDICT

record features_dict =
  images :: batch
  most_likely_class :: "nat list"

text \<open>\<^verbatim>\<open>path_logits[:, most_likely_class[0]]\<close>: one column of the logits.\<close>

definition logit_column :: "nat \<Rightarrow> real list list \<Rightarrow> error + real list" where
  "logit_column c rows =
     (if list_all (\<lambda>row. c < length row) rows
      then Inr (map (\<lambda>row. row ! c) rows) else Inl FrameworkError)"

text \<open>
  \<^verbatim>\<open>tf.multiply(gradients, features)\<close>. \<open>tf.gradients\<close> returns a list with one tensor
  per differentiated input, here one tensor of the shape of \<open>path_features\<close>; as an
  operand it has a leading axis of size one, which is aligned with nothing in
  \<open>features\<close>, so the batch axis of \<open>features\<close> meets the path axis and is broadcast
  along it when it has size one. The image axes must agree.
\<close>

definition tf_multiply :: "batch \<Rightarrow> batch \<Rightarrow> error + batch" where
  "tf_multiply g f =
     (if \<not> list_all (\<lambda>x. list_all (\<lambda>y. length x = length y) f) g then Inl FrameworkError
      else if length f = 1 then Inr (map (\<lambda>x. map2 (*) x (f ! 0)) g)
      else if length g = length f then Inr (map2 (map2 (*)) g f)
      else if length g = 1 then Inr (map (\<lambda>y. map2 (*) (g ! 0) y) f)
      else Inl FrameworkError)"

text \<open>
  \<open>tf.squeeze\<close> drops every axis of size one: always the leading axis of the product,
  and the path axis too when the path holds a single image. (The image axes, 224, 224
  and 3, are never of size one.)
\<close>

datatype squeezed = Stacked batch | Single image

definition tf_squeeze :: "batch \<Rightarrow> squeezed" where
  "tf_squeeze g = (case g of [x] \<Rightarrow> Single x | _ \<Rightarrow> Stacked g)"

text \<open>The gradient maps that the squeezed tensor holds, one per path image.\<close>

definition gradient_maps :: "squeezed \<Rightarrow> batch" where
  "gradient_maps t = (case t of Stacked maps \<Rightarrow> maps | Single m \<Rightarrow> [m])"

record predictions =
  pred_path_features :: batch
  pred_path_logits :: "real list list"
  pred_target_logits :: "real list"
  pred_gradients :: squeezed

text \<open>
  \<^verbatim>\<open>tf.estimator.EstimatorSpec(mode=mode, predictions=predictions)\<close>: the constructor
  raises \<open>ValueError\<close> when the mode is \<open>TRAIN\<close> (no \<open>train_op\<close> is given) or \<open>EVAL\<close> (no
  \<open>loss\<close> is given); in \<open>PREDICT\<close> the predictions are what the estimator hands on.
\<close>

definition estimator_spec :: "mode_keys \<Rightarrow> predictions \<Rightarrow> error + predictions" where
  "estimator_spec mode preds = (if mode = PREDICT then Inr preds else Inl ValueError)"

text \<open>
  The parameters: \<open>network path is_training\<close> is \<open>imagenet_resnet_v2(RESNET_SIZE,
  _LABEL_CLASSES)\<close> applied to a batch, one row of logits per image;
  \<open>tf_gradients ys xs\<close> is \<open>tf.gradients\<close> applied to a tensor of the graph, given as
  the function \<open>ys\<close> of the tensor it is differentiated by, at the value \<open>xs\<close> of the
  latter. The argument \<open>labels\<close> of the source is unused and left out.
\<close>

definition gradients_model_fn ::
  "nat \<Rightarrow> int \<Rightarrow> (batch \<Rightarrow> bool \<Rightarrow> real list list) \<Rightarrow> ((batch \<Rightarrow> real list) \<Rightarrow> batch \<Rightarrow> batch) \<Rightarrow>
   features_dict \<Rightarrow> mode_keys \<Rightarrow> error + predictions" where
  "gradients_model_fn d N network tf_gradients features mode =
     (let feats = preprocess_images (images features) in
      case path_features d N feats of
        Inl e \<Rightarrow> Inl e
      | Inr path \<Rightarrow>
          let path_logits = network path (mode = TRAIN) in
          (case most_likely_class features of
             [] \<Rightarrow> Inl FrameworkError
           | c # _ \<Rightarrow>
               (case logit_column c path_logits of
                  Inl e \<Rightarrow> Inl e
                | Inr target_logits \<Rightarrow>
                    let grads = tf_gradients (\<lambda>p. map (\<lambda>row. row ! c) (network p (mode = TRAIN))) path in
                    (case tf_multiply grads feats of
                       Inl e \<Rightarrow> Inl e
                     | Inr weighted \<Rightarrow>
                         estimator_spec mode
                           \<lparr>pred_path_features = path,
                            pred_path_logits = path_logits,
                            pred_target_logits = target_logits,
                            pred_gradients = tf_squeeze weighted\<rparr>))))"

subsection \<open>What the differentiation is to return\<close>

text \<open>
  \<open>is_gradient_at f x g\<close>: the array \<open>g\<close> has the shape of the image \<open>x\<close> and holds, pixel
  by pixel, the partial derivative of the score \<open>f\<close> at \<open>x\<close>. \<open>tf.gradients(ys, xs)\<close> is
  documented to return the derivatives of the sum of \<open>ys\<close> with respect to \<open>xs\<close>.
\<close>

definition is_gradient_at :: "(image \<Rightarrow> real) \<Rightarrow> image \<Rightarrow> image \<Rightarrow> bool" where
  "is_gradient_at f x g \<longleftrightarrow>
     length g = length x \<and>
     (\<forall>p < length x. ((\<lambda>t. f (x[p := t])) has_real_derivative g ! p) (at (x ! p)))"

subsection \<open>Label lookup (cell 25)\<close>



subsection \<open>Accumulating the gradients (cell 28)\<close>

text \<open>One element of the generator \<open>gradient_predictions\<close>: the predictions of one path image.\<close>

record gradient_dict =
  gd_path_features :: image
  gd_path_logits :: "real list"
  gd_target_logits :: real
  gd_gradients :: image

datatype pickled = PArray image | PPairs "(real \<times> real) list"

type_synonym file_store = "string \<Rightarrow> pickled option"

definition digit_char :: "nat \<Rightarrow> char" where
  "digit_char n = char_of (48 + n)"

fun str_nat :: "nat \<Rightarrow> string" where
  "str_nat n = (if n < 10 then [digit_char n] else str_nat (n div 10) @ [digit_char (n mod 10)])"

definition str_int :: "int \<Rightarrow> string" where
  "str_int i = (if i < 0 then CHR ''-'' # str_nat (nat (- i)) else str_nat (nat i))"

definition os_path_join :: "string \<Rightarrow> string \<Rightarrow> string" where
  "os_path_join a b =
     (if b \<noteq> [] \<and> hd b = CHR ''/'' then b
      else if a = [] \<or> last a = CHR ''/'' then a @ b
      else a @ ''/'' @ b)"

definition pickle_dump :: "pickled \<Rightarrow> string \<Rightarrow> file_store \<Rightarrow> file_store" where
  "pickle_dump v name fs = fs(name \<mapsto> v)"

text \<open>
  The state of the loop: what the generator has yet to yield, the two accumulators and
  the files written. The \<open>print\<close> of each round is left out.
\<close>

record integ_state =
  generator :: "gradient_dict list"
  int_gradients :: image
  gradients_and_logits :: "(real \<times> real) list"
  files :: file_store

definition integration_step :: "string \<Rightarrow> int \<Rightarrow> integ_state \<Rightarrow> error + integ_state" where
  "integration_step image_dir i s =
     (case generator s of
        [] \<Rightarrow> Inl StopIteration
      | gradient_dict # rest \<Rightarrow>
          let gradient_map = gd_gradients gradient_dict;
              fs = pickle_dump (PArray gradient_map)
                     (os_path_join image_dir (''path_gradient_'' @ str_int i @ ''.pkl'')) (files s)
          in (case np_add (int_gradients s) gradient_map of
                Inl e \<Rightarrow> Inl e
              | Inr summed \<Rightarrow>
                  Inr \<lparr>generator = rest,
                       int_gradients = summed,
                       gradients_and_logits =
                         gradients_and_logits s @ [(np_sum gradient_map, gd_target_logits gradient_dict)],
                       files = fs\<rparr>))"

fun integration_loop :: "string \<Rightarrow> int list \<Rightarrow> integ_state \<Rightarrow> error + integ_state" where
  "integration_loop image_dir [] s = Inr s"
| "integration_loop image_dir (i # rest) s =
     (case integration_step image_dir i s of
        Inl e \<Rightarrow> Inl e
      | Inr s' \<Rightarrow> integration_loop image_dir rest s')"

text \<open>
  The whole cell: \<open>int_gradients = np.zeros((224, 224, 3))\<close>, the loop over
  \<open>range(0, RIEMANN_STEPS + 1)\<close>, the two final dumps.
\<close>

definition compute_gradients ::
  "nat \<Rightarrow> int \<Rightarrow> string \<Rightarrow> gradient_dict list \<Rightarrow> file_store \<Rightarrow> error + integ_state" where
  "compute_gradients d N image_dir gradient_predictions fs =
     (case integration_loop image_dir [0..N]
             \<lparr>generator = gradient_predictions, int_gradients = replicate d 0,
              gradients_and_logits = [], files = fs\<rparr> of
        Inl e \<Rightarrow> Inl e
      | Inr s \<Rightarrow>
          Inr (s\<lparr>files :=
                 pickle_dump (PPairs (gradients_and_logits s))
                   (os_path_join image_dir ''gradients_and_logits.pkl'')
                   (pickle_dump (PArray (int_gradients s))
                      (os_path_join image_dir ''int_gradients.pkl'') (files s))\<rparr>))"

subsection \<open>Visualisation arrays (cells 30, 32 and 34)\<close>

definition AMPLIFICATION :: real where
  "AMPLIFICATION = 2.0"

text \<open>\<open>np.ndarray.min\<close> and \<open>np.ndarray.max\<close> raise \<open>ValueError\<close> on an array without elements.\<close>

definition np_min :: "image \<Rightarrow> error + real" where
  "np_min a = (case a of [] \<Rightarrow> Inl ValueError | x # xs \<Rightarrow> Inr (fold min xs x))"

definition np_max :: "image \<Rightarrow> error + real" where
  "np_max a = (case a of [] \<Rightarrow> Inl ValueError | x # xs \<Rightarrow> Inr (fold max xs x))"

text \<open>\<open>np.median\<close>: the middle of the sorted values, the mean of the two middle ones for an even count.\<close>

definition np_median :: "image \<Rightarrow> np_float" where
  "np_median a =
     (let s = sort a; n = length s
      in if n = 0 then NaN
         else if even n then Val ((s ! (n div 2 - 1) + s ! (n div 2)) / 2)
         else Val (s ! (n div 2)))"

text \<open>
  The two arrays handed to \<open>plt.imshow\<close> for one gradient map:
  \<^verbatim>\<open>(gradient_map - min_grad) / (max_grad - min_grad)\<close> and
  \<^verbatim>\<open>np.abs(gradient_map - median_grad) * AMPLIFICATION / max(max_grad - median_grad, median_grad - min_grad)\<close>.
\<close>

definition gradient_visualization :: "image \<Rightarrow> error + (np_float list \<times> np_float list)" where
  "gradient_visualization gradient_map =
     (case np_min gradient_map of
        Inl e \<Rightarrow> Inl e
      | Inr min_grad \<Rightarrow>
          (case np_max gradient_map of
             Inl e \<Rightarrow> Inl e
           | Inr max_grad \<Rightarrow>
               (case np_median gradient_map of
                  Val median_grad \<Rightarrow>
                    Inr (map (\<lambda>x. np_truediv (x - min_grad) (max_grad - min_grad)) gradient_map,
                         map (\<lambda>x. np_truediv (\<bar>x - median_grad\<bar> * AMPLIFICATION)
                                     (max (max_grad - median_grad) (median_grad - min_grad)))
                             gradient_map)
                | _ \<Rightarrow> Inl ValueError)))"

subsection \<open>The sanity check (cell 32)\<close>

text \<open>
  \<^verbatim>\<open>gradients_and_logits[RIEMANN_STEPS][1] - gradients_and_logits[0][1]\<close> and
  \<^verbatim>\<open>np.sum(int_gradients) / RIEMANN_STEPS + 1\<close>, the two values that are printed.
\<close>

definition total_logit_diff :: "int \<Rightarrow> (real \<times> real) list \<Rightarrow> error + real" where
  "total_logit_diff N gl =
     (case py_index gl N of
        Inl e \<Rightarrow> Inl e
      | Inr last_pair \<Rightarrow>
          (case py_index gl 0 of
             Inl e \<Rightarrow> Inl e
           | Inr first_pair \<Rightarrow> Inr (snd last_pair - snd first_pair)))"

definition sum_of_integrated_gradients :: "int \<Rightarrow> image \<Rightarrow> np_float" where
  "sum_of_integrated_gradients N int_grads =
     np_plus (np_truediv (np_sum int_grads) (real_of_int N)) 1"

section \<open>Properties\<close>

subsection \<open>The path in closed form\<close>

lemma tf_concat_same_length:
  assumes "list_all (\<lambda>x. length x = d) a" "list_all (\<lambda>y. length y = d) b"
  shows "tf_concat a b = Inr (a @ b)"
proof -
  have "list_all (\<lambda>x. list_all (\<lambda>y. length x = length y) b) a"
    using assms by (auto simp: list_all_iff)
  then show ?thesis by (simp add: tf_concat_def)
qed

lemma scale_features_length:
  "list_all (\<lambda>y. length y = d) fs \<Longrightarrow> list_all (\<lambda>y. length y = d) (scale_features fs i N)"
  by (auto simp: scale_features_def list_all_iff)

lemma path_loop_closed:
  assumes "list_all (\<lambda>y. length y = d) fs" "list_all (\<lambda>x. length x = d) path"
  shows "path_loop N fs js path = Inr (path @ concat (map (\<lambda>i. scale_features fs i N) js))"
  using assms(2)
proof (induction js arbitrary: path)
  case Nil
  then show ?case by simp
next
  case (Cons j js)
  have sc: "list_all (\<lambda>y. length y = d) (scale_features fs j N)"
    using assms(1) by (rule scale_features_length)
  have step: "tf_concat path (scale_features fs j N) = Inr (path @ scale_features fs j N)"
    using Cons.prems sc by (rule tf_concat_same_length)
  have "list_all (\<lambda>x. length x = d) (path @ scale_features fs j N)"
    using Cons.prems sc by simp
  from Cons.IH [OF this] step show ?case by simp
qed

lemma path_features_single:
  assumes "length f = d"
  shows "path_features d N [f] =
         Inr (replicate d 0 # map (\<lambda>i. map (\<lambda>x. x * real_of_int i / real_of_int N) f) [1..N])"
proof -
  have "path_loop N [f] [1..N] (tf_zeros 1 d) =
        Inr (tf_zeros 1 d @ concat (map (\<lambda>i. scale_features [f] i N) [1..N]))"
    by (rule path_loop_closed [where d = d]) (simp_all add: assms tf_zeros_def)
  moreover have "concat (map (\<lambda>i. scale_features [f] i N) [1..N]) =
                 map (\<lambda>i. map (\<lambda>x. x * real_of_int i / real_of_int N) f) [1..N]"
    by (simp add: scale_features_def)
  ultimately show ?thesis by (simp add: path_features_def tf_zeros_def)
qed

lemma path_features_eq:
  assumes "length f = d" "path_features d N [f] = Inr path"
  shows "path = replicate d 0 # map (\<lambda>i. map (\<lambda>x. x * real_of_int i / real_of_int N) f) [1..N]"
  using assms(2) unfolding path_features_single [OF assms(1)] by simp

lemma path_features_length:
  assumes "length f = d" "path_features d N [f] = Inr path"
  shows "length path = nat N + 1"
  unfolding path_features_eq [OF assms] by simp

lemma path_features_nth:
  assumes "length f = d" "path_features d N [f] = Inr path" "int k \<le> N"
  shows "path ! k = map (\<lambda>x. x * real k / real_of_int N) f"
proof (cases k)
  case 0
  have "map (\<lambda>x. 0::real) f = replicate d 0"
    using assms(1) by (simp add: map_replicate_const)
  with 0 show ?thesis unfolding path_features_eq [OF assms(1,2)] by simp
next
  case (Suc j)
  with assms(3) have j: "1 + int j \<le> N" by simp
  then have "j < length [1..N]" by simp
  moreover from j have "[1..N] ! j = 1 + int j" by (rule nth_upto)
  moreover have "real_of_int (1 + int j) = real (Suc j)" by simp
  ultimately show ?thesis
    using Suc unfolding path_features_eq [OF assms(1,2)] by (simp del: of_int_add)
qed

lemma preprocess_single: "preprocess_images [img] = [map (\<lambda>x. x / 255 - 0.5) img]"
  by (simp add: preprocess_images_def)

lemma preprocess_grey: "preprocess_images [replicate d (255 / 2)] = [replicate d 0]"
  by (simp add: preprocess_images_def)

lemma map2_same_list:
  "map2 h (map f1 xs) (map f2 xs) = map (\<lambda>x. h (f1 x) (f2 x)) xs"
  by (induction xs) simp_all

subsection \<open>The path: number of images and end points\<close>

text \<open>
  Claim C2. For every step count \<open>N \<ge> 1\<close> and every image of the fixed shape, the path
  construction succeeds with exactly \<open>N + 1\<close> images; image 0 is the baseline, all zero,
  which is what normalisation makes of the uniform grey image (every pixel 127.5); image
  \<open>N\<close> is the normalised original image.
\<close>

theorem path_has_N_plus_1_images:
  assumes "1 \<le> N" and "length img = d"
  shows "\<exists>path. path_features d N (preprocess_images [img]) = Inr path
           \<and> length path = nat N + 1
           \<and> path ! 0 = replicate d 0
           \<and> preprocess_images [replicate d (255 / 2)] = [path ! 0]
           \<and> [path ! nat N] = preprocess_images [img]"
proof -
  let ?f = "map (\<lambda>x. x / 255 - 0.5) img"
  have len: "length ?f = d" using assms(2) by simp
  obtain path where p: "path_features d N [?f] = Inr path"
    using path_features_single [OF len] by blast
  have l: "length path = nat N + 1" using len p by (rule path_features_length)
  have z: "path ! 0 = replicate d 0"
    unfolding path_features_eq [OF len p] by simp
  have "int (nat N) \<le> N" using assms(1) by simp
  with len p have "path ! nat N = map (\<lambda>x. x * real (nat N) / real_of_int N) ?f"
    by (rule path_features_nth)
  moreover have "real (nat N) = real_of_int N" using assms(1) by simp
  moreover have "real_of_int N \<noteq> 0" using assms(1) by simp
  ultimately have e: "path ! nat N = ?f" by simp
  from p l z e show ?thesis by (simp add: preprocess_single preprocess_grey)
qed

theorem path_has_N_plus_1_images_witness:
  "(1::int) \<le> 2 \<and> length [255, 0 :: real] = 2 \<and>
   (\<exists>path. path_features 2 2 (preprocess_images [[255, 0]]) = Inr path
      \<and> path = [[0, 0], [1/4, -1/4], [1/2, -1/2]]
      \<and> length path = 3
      \<and> preprocess_images [replicate 2 (255 / 2)] = [path ! 0]
      \<and> [path ! 2] = preprocess_images [[255, 0]])"
proof -
  have "path_features 2 2 (preprocess_images [[255, 0]]) = Inr [[0, 0], [1/4, -1/4], [1/2, -1/2]]"
    by (simp add: path_features_def preprocess_images_def tf_zeros_def tf_concat_def
        scale_features_def upto.simps eval_nat_numeral)
  with path_has_N_plus_1_images [of 2 "[255, 0]" 2] show ?thesis
    by (simp add: eval_nat_numeral preprocess_images_def)
qed


subsection \<open>The path: linear interpolation\<close>

text \<open>
  Claim C3. For every step count \<open>N \<ge> 1\<close>, every image and every index \<open>k\<close> from 0 to
  \<open>N\<close>, path image \<open>k\<close> is \<open>baseline + (target - baseline) * k / N\<close>, which is
  \<open>target * k / N\<close> since the baseline is all zero, the target being the normalised
  image. For an all-one target and \<open>N = 2\<close> the path is 0, 0.5 and 1.0 times the target.
\<close>

theorem path_is_linear_interpolation:
  assumes "1 \<le> N" and "length img = d" and "int k \<le> N"
  shows "\<exists>path baseline target.
           path_features d N (preprocess_images [img]) = Inr path
           \<and> baseline = replicate d 0
           \<and> [target] = preprocess_images [img]
           \<and> path ! k = map2 (\<lambda>b t. b + (t - b) * (real k / real_of_int N)) baseline target
           \<and> path ! k = map (\<lambda>t. t * (real k / real_of_int N)) target
           \<and> path_features d 2 [replicate d 1] =
                 Inr [map (\<lambda>t. 0 * t) (replicate d 1), map (\<lambda>t. 0.5 * t) (replicate d 1),
                      map (\<lambda>t. 1.0 * t) (replicate d 1)]"
proof -
  let ?f = "map (\<lambda>x. x / 255 - 0.5) img"
  have len: "length ?f = d" using assms(2) by simp
  obtain path where p: "path_features d N [?f] = Inr path"
    using path_features_single [OF len] by blast
  have nth: "path ! k = map (\<lambda>t. t * (real k / real_of_int N)) ?f"
    using path_features_nth [OF len p assms(3)] by simp
  have "map2 (\<lambda>b t. b + (t - b) * (real k / real_of_int N)) (replicate d 0) ?f
        = map2 (\<lambda>b t. b + (t - b) * (real k / real_of_int N)) (map (\<lambda>x. 0) ?f) (map (\<lambda>x. x) ?f)"
    using len by (simp add: map_replicate_const)
  also have "\<dots> = map (\<lambda>t. 0 + (t - 0) * (real k / real_of_int N)) ?f"
    by (rule map2_same_list)
  finally have interp: "map2 (\<lambda>b t. b + (t - b) * (real k / real_of_int N)) (replicate d 0) ?f
        = map (\<lambda>t. t * (real k / real_of_int N)) ?f" by simp
  have scen: "path_features d 2 [replicate d 1] =
                 Inr [map (\<lambda>t. 0 * t) (replicate d 1), map (\<lambda>t. 0.5 * t) (replicate d 1),
                      map (\<lambda>t. 1.0 * t) (replicate d 1)]"
    by (simp add: path_features_single upto.simps)
  from p nth interp scen show ?thesis
    by (simp add: preprocess_single)
qed

theorem path_is_linear_interpolation_witness:
  "(1::int) \<le> 2 \<and> length [255, 0 :: real] = 2 \<and> int 1 \<le> 2 \<and>
   (\<exists>path. path_features 2 2 (preprocess_images [[255, 0]]) = Inr path
      \<and> preprocess_images [[255, 0]] = [[1/2, -1/2]]
      \<and> path ! 1 = map2 (\<lambda>b t. b + (t - b) * (real 1 / real_of_int 2)) (replicate 2 0) [1/2, -1/2]
      \<and> path ! 1 = [1/4, -1/4])"
proof -
  have "preprocess_images [[255, 0]] = [[1/2, -1/2]]"
    by (simp add: preprocess_images_def)
  with path_is_linear_interpolation [of 2 "[255, 0]" 2 1] show ?thesis
    by auto
qed

text \<open>
  Claim C4. For every step count \<open>N \<ge> 1\<close>, every image and every \<open>k\<close> with
  \<open>0 \<le> k < N\<close>, the pixelwise difference of path image \<open>k + 1\<close> and path image \<open>k\<close>
  is the normalised image divided by \<open>N\<close>: the same for every consecutive pair.
\<close>

theorem consecutive_path_difference_constant:
  assumes "1 \<le> N" and "length img = d" and "int k < N"
  shows "\<exists>path target.
           path_features d N (preprocess_images [img]) = Inr path
           \<and> [target] = preprocess_images [img]
           \<and> map2 (-) (path ! (k + 1)) (path ! k) = map (\<lambda>t. t / real_of_int N) target"
proof -
  let ?f = "map (\<lambda>x. x / 255 - 0.5) img"
  have len: "length ?f = d" using assms(2) by simp
  obtain path where p: "path_features d N [?f] = Inr path"
    using path_features_single [OF len] by blast
  have N0: "real_of_int N \<noteq> 0" using assms(1) by simp
  have lo: "path ! k = map (\<lambda>t. t * real k / real_of_int N) ?f"
    using assms(3) by (intro path_features_nth [OF len p]) simp
  have hi: "path ! (k + 1) = map (\<lambda>t. t * real (k + 1) / real_of_int N) ?f"
    using assms(3) by (intro path_features_nth [OF len p]) simp
  have "map2 (-) (path ! (k + 1)) (path ! k) =
        map (\<lambda>t. t * real (k + 1) / real_of_int N - t * real k / real_of_int N) ?f"
    unfolding lo hi by (rule map2_same_list)
  also have "\<dots> = map (\<lambda>t. t / real_of_int N) ?f"
    using N0 by (simp add: field_simps)
  finally show ?thesis using p by (simp add: preprocess_single)
qed

theorem consecutive_path_difference_constant_witness:
  "(1::int) \<le> 2 \<and> length [255, 0 :: real] = 2 \<and> int 1 < 2 \<and>
   (\<exists>path. path_features 2 2 (preprocess_images [[255, 0]]) = Inr path
      \<and> preprocess_images [[255, 0]] = [[1/2, -1/2]]
      \<and> map2 (-) (path ! (1 + 1)) (path ! 1) = [1/4, -1/4])"
proof -
  have pre: "preprocess_images [[255, 0]] = [[1/2, -1/2]]"
    by (simp add: preprocess_images_def)
  from consecutive_path_difference_constant [of 2 "[255, 0]" 2 1]
  obtain path target where
    "path_features 2 2 (preprocess_images [[255, 0]]) = Inr path"
    "[target] = preprocess_images [[255, 0]]"
    "map2 (-) (path ! (1 + 1)) (path ! 1) = map (\<lambda>t. t / real_of_int 2) target"
    by auto
  with pre show ?thesis by auto
qed


subsection \<open>A step count below one\<close>

text \<open>
  Claim C7 says that a step count \<open>N < 1\<close> is rejected with an error by the path
  construction and the gradient computation. The source has no such check: for \<open>N = 0\<close>
  and for a negative \<open>N\<close> the range of the loop is empty, and both return a result.
\<close>

theorem degenerate_step_count_counterexample:
  "path_features 2 0 (preprocess_images [[255, 0]]) = Inr [[0, 0]]
   \<and> path_features 2 (- 3) (preprocess_images [[255, 0]]) = Inr [[0, 0]]
   \<and> gradients_model_fn 2 0 (\<lambda>b is_training. map (\<lambda>x. [0, sum_list x]) b)
         (\<lambda>ys xs. map (map (\<lambda>_. 1)) xs)
         \<lparr>images = [[255, 0]], most_likely_class = [1]\<rparr> PREDICT
       = Inr \<lparr>pred_path_features = [[0, 0]], pred_path_logits = [[0, 0]],
              pred_target_logits = [0], pred_gradients = Single [1/2, - 1/2]\<rparr>"
  by (simp add: gradients_model_fn_def estimator_spec_def path_features_def preprocess_images_def tf_zeros_def
      logit_column_def tf_multiply_def tf_squeeze_def eval_nat_numeral Let_def)

text \<open>
  Claim C7, as the code has it. For every step count \<open>N < 1\<close> the path construction
  raises nothing, whatever its input: the loop body never runs and the path is the single
  all-zero baseline image. The model function, called in \<open>PREDICT\<close> mode as the notebook
  calls it (so that \<open>is_training\<close> is false), then returns predictions for that one image,
  with one weighted gradient map squeezed to the shape of an image, whenever the image
  has the fixed shape, the class index is within the logits and the differentiation
  returns one map of that shape.
\<close>

theorem degenerate_step_count_gives_baseline_only:
  assumes "N < 1"
  shows "path_features d N features = Inr [replicate d 0]
         \<and> (length img = d \<and> network [replicate d 0] False = [logits] \<and> c < length logits
              \<and> tf_gradients (\<lambda>p. map (\<lambda>row. row ! c) (network p False)) [replicate d 0] = [g]
              \<and> length g = d
            \<longrightarrow> gradients_model_fn d N network tf_gradients
                  \<lparr>images = [img], most_likely_class = c # cs\<rparr> PREDICT
                = Inr \<lparr>pred_path_features = [replicate d 0], pred_path_logits = [logits],
                       pred_target_logits = [logits ! c],
                       pred_gradients = Single (map2 (*) g (map (\<lambda>x. x / 255 - 0.5) img))\<rparr>)"
proof -
  from assms have "[1..N] = []" by simp
  then have p: "path_features d N fs = Inr [replicate d 0]" for fs
    by (simp add: path_features_def tf_zeros_def)
  show ?thesis
    by (simp add: p gradients_model_fn_def estimator_spec_def preprocess_images_def logit_column_def
        tf_multiply_def tf_squeeze_def Let_def)
qed

theorem degenerate_step_count_gives_baseline_only_witness:
  "(0::int) < 1 \<and> path_features 2 0 [[1/2, - 1/2]] = Inr [replicate 2 0]
   \<and> length [255, 0 :: real] = 2
   \<and> (\<lambda>b is_training. map (\<lambda>x. [0, sum_list x]) b) [replicate 2 0] False = [[0, 0]]
   \<and> (1::nat) < length [0, 0 :: real]
   \<and> gradients_model_fn 2 0 (\<lambda>b is_training. map (\<lambda>x. [0, sum_list x]) b)
         (\<lambda>ys xs. map (map (\<lambda>_. 1)) xs)
         \<lparr>images = [[255, 0]], most_likely_class = [1]\<rparr> PREDICT
       = Inr \<lparr>pred_path_features = [replicate 2 0], pred_path_logits = [[0, 0]],
              pred_target_logits = [[0, 0] ! 1],
              pred_gradients = Single (map2 (*) [1, 1] (map (\<lambda>x. x / 255 - 0.5) [255, 0]))\<rparr>"
  using degenerate_step_count_gives_baseline_only
    [of 0 2 "[[1/2, - 1/2]]" "[255, 0]" "\<lambda>b is_training. map (\<lambda>x. [0, sum_list x]) b"
        "[0, 0]" 1 "\<lambda>ys xs. map (map (\<lambda>_. 1)) xs" "[1, 1]" "[]"]
  by (simp add: eval_nat_numeral Let_def)

subsection \<open>Class indices and the label file\<close>





subsection \<open>The weighted gradients\<close>

lemma gradient_maps_squeeze: "gradient_maps (tf_squeeze g) = g"
  by (simp add: gradient_maps_def tf_squeeze_def split: list.splits)

lemma tf_multiply_single:
  "tf_multiply G [f] =
     (if list_all (\<lambda>x. length x = length f) G then Inr (map (\<lambda>x. map2 (*) x f) G)
      else Inl FrameworkError)"
  by (simp add: tf_multiply_def)

lemma gradients_model_fn_single:
  assumes "gradients_model_fn d N network tf_gradients
             \<lparr>images = [img], most_likely_class = cs\<rparr> mode = Inr preds"
  shows "\<exists>path c rest G.
           path_features d N (preprocess_images [img]) = Inr path
         \<and> cs = c # rest
         \<and> G = tf_gradients (\<lambda>p. map (\<lambda>row. row ! c) (network p (mode = TRAIN))) path
         \<and> list_all (\<lambda>x. length x = length img) G
         \<and> pred_path_features preds = path
         \<and> gradient_maps (pred_gradients preds) =
              map (\<lambda>x. map2 (*) x (map (\<lambda>v. v / 255 - 0.5) img)) G"
  using assms
  by (auto simp: gradients_model_fn_def estimator_spec_def Let_def preprocess_single tf_multiply_single
      gradient_maps_squeeze split: sum.splits list.splits if_splits)

lemma gradients_model_fn_needs_predict:
  "mode \<noteq> PREDICT \<Longrightarrow> gradients_model_fn d N network tf_gradients features mode \<noteq> Inr preds"
  by (auto simp: gradients_model_fn_def estimator_spec_def Let_def split: sum.splits list.splits)

lemma gradients_model_fn_succeeds:
  assumes "path_features d N (preprocess_images [img]) = Inr path"
    and "list_all (\<lambda>row. c < length row) (network path False)"
    and "list_all (\<lambda>x. length x = length img)
           (tf_gradients (\<lambda>p. map (\<lambda>row. row ! c) (network p False)) path)"
  shows "gradients_model_fn d N network tf_gradients
             \<lparr>images = [img], most_likely_class = c # cs\<rparr> PREDICT =
         Inr \<lparr>pred_path_features = path,
              pred_path_logits = network path False,
              pred_target_logits = map (\<lambda>row. row ! c) (network path False),
              pred_gradients =
                tf_squeeze (map (\<lambda>x. map2 (*) x (map (\<lambda>v. v / 255 - 0.5) img))
                  (tf_gradients (\<lambda>p. map (\<lambda>row. row ! c) (network p False)) path))\<rparr>"
  using assms
  by (simp add: gradients_model_fn_def estimator_spec_def Let_def preprocess_single
      tf_multiply_single logit_column_def)

lemma tf_squeeze_stacked: "length g \<noteq> 1 \<Longrightarrow> tf_squeeze g = Stacked g"
  by (cases g rule: list.exhaust; cases "tl g") (auto simp: tf_squeeze_def split: list.splits)

lemma sum_list_update_real:
  "i < length xs \<Longrightarrow> sum_list (xs[i := y]) = sum_list xs - xs ! i + (y::real)"
proof (induction xs arbitrary: i)
  case Nil
  then show ?case by simp
next
  case (Cons x xs)
  then show ?case by (cases i) simp_all
qed

lemma summed_logits_update:
  assumes "i < length xs"
  shows "sum_list (map h (xs[i := x])) = sum_list (map h xs) - h (xs ! i) + (h x :: real)"
proof -
  have "map h (xs[i := x]) = (map h xs)[i := h x]" by (rule map_update)
  with assms show ?thesis by (simp add: sum_list_update_real)
qed

text \<open>
  The other images of the batch add a constant to the sum of the target logits: the
  gradient of the sum with respect to one image is the gradient of that image's logit.
\<close>

lemma gradient_of_summed_logits:
  assumes "is_gradient_at (\<lambda>x. sum_list (map h (xs[i := x]))) (xs ! i) g" and "i < length xs"
  shows "is_gradient_at h (xs ! i) g"
proof -
  let ?K = "sum_list (map h xs) - h (xs ! i)"
  from assms(1) have len: "length g = length (xs ! i)" by (simp add: is_gradient_at_def)
  have "((\<lambda>t. h ((xs ! i)[p := t])) has_real_derivative g ! p) (at (xs ! i ! p))"
    if p: "p < length (xs ! i)" for p
  proof -
    from assms(1) p
    have "((\<lambda>t. sum_list (map h (xs[i := (xs ! i)[p := t]]))) has_real_derivative g ! p)
            (at (xs ! i ! p))"
      by (simp add: is_gradient_at_def)
    then have "((\<lambda>t. ?K + h ((xs ! i)[p := t])) has_real_derivative g ! p) (at (xs ! i ! p))"
      by (simp add: summed_logits_update [OF assms(2)])
    from DERIV_diff [OF this DERIV_const [of ?K]] show ?thesis by simp
  qed
  with len show ?thesis by (simp add: is_gradient_at_def)
qed

lemma abs_derivative_pos: "0 < a \<Longrightarrow> ((\<lambda>t. \<bar>t\<bar>) has_real_derivative 1) (at a)"
proof -
  assume a: "0 < a"
  have "eventually (\<lambda>t. t \<in> {0<..}) (nhds a)"
    using a by (intro eventually_nhds_in_open) simp_all
  then have ev: "eventually (\<lambda>t. \<bar>t\<bar> = t) (nhds a)"
    by (rule eventually_mono) simp
  have "((\<lambda>t. t) has_real_derivative 1) (at a)" by (rule DERIV_ident)
  with ev show ?thesis by (simp add: DERIV_cong_ev [OF refl ev refl])
qed

lemma abs_derivative_neg: "a < 0 \<Longrightarrow> ((\<lambda>t. \<bar>t\<bar>) has_real_derivative - 1) (at a)"
proof -
  assume a: "a < 0"
  have "eventually (\<lambda>t. t \<in> {..<0}) (nhds a)"
    using a by (intro eventually_nhds_in_open) simp_all
  then have ev: "eventually (\<lambda>t. \<bar>t\<bar> = - t) (nhds a)"
    by (rule eventually_mono) simp
  have "((\<lambda>t. - t) has_real_derivative - 1) (at a)"
    by (auto intro!: derivative_eq_intros)
  with ev show ?thesis by (simp add: DERIV_cong_ev [OF refl ev refl])
qed

text \<open>
  Claim C5. For every path image and the fixed target class \<open>c\<close>, the gradient map that
  is returned is the gradient of the logit of class \<open>c\<close> with respect to the pixels of
  that path image, multiplied pixel by pixel by the original image (normalised, not scaled
  along the path), and it has the shape of the image. The function is called in
  \<open>PREDICT\<close> mode, as the notebook calls it. The framework enters through assumptions:
  the network computes the logits of each image of a batch on its own; \<open>tf.gradients\<close>
  returns a tensor \<open>G\<close> of the shape of the path; and at the path image \<open>i\<close> in question
  \<open>G\<close> holds the derivatives of the sum of the target logits with respect to that
  image. Nothing is assumed about differentiability at the other path images.
\<close>

theorem gradient_map_is_weighted_logit_gradient:
  assumes "1 \<le> N" and "length img = d"
    and "path_features d N (preprocess_images [img]) = Inr path"
    and "\<And>b. network b False = map net b"
    and "\<And>x. c < length (net x)"
    and "G = tf_gradients (\<lambda>p. map (\<lambda>row. row ! c) (network p False)) path"
    and "length G = length path" and "list_all (\<lambda>g. length g = d) G"
    and "i < length path"
    and "is_gradient_at (\<lambda>x. sum_list (map (\<lambda>row. row ! c) (network (path[i := x]) False)))
           (path ! i) (G ! i)"
  shows "\<exists>preds maps.
           gradients_model_fn d N network tf_gradients
             \<lparr>images = [img], most_likely_class = c # cs\<rparr> PREDICT = Inr preds
         \<and> pred_path_features preds = path
         \<and> pred_gradients preds = Stacked maps
         \<and> length maps = length path
         \<and> list_all (\<lambda>m. length m = length img) maps
         \<and> is_gradient_at (\<lambda>x. net x ! c) (path ! i) (G ! i)
         \<and> maps ! i = map2 (*) (G ! i) (preprocess_images [img] ! 0)"
proof -
  let ?f = "map (\<lambda>v. v / 255 - 0.5) img"
  let ?h = "\<lambda>x. net x ! c"
  have len_f: "length ?f = d" using assms(2) by simp
  from assms(3) have p: "path_features d N [?f] = Inr path" by (simp add: preprocess_single)
  have len_path: "length path = nat N + 1" using len_f p by (rule path_features_length)
  have "(\<lambda>x. sum_list (map (\<lambda>row. row ! c) (network (path[i := x]) False)))
        = (\<lambda>x. sum_list (map ?h (path[i := x])))"
    by (simp add: assms(4) comp_def)
  with assms(10) have "is_gradient_at (\<lambda>x. sum_list (map ?h (path[i := x]))) (path ! i) (G ! i)"
    by simp
  then have grad: "is_gradient_at ?h (path ! i) (G ! i)"
    using assms(9) by (rule gradient_of_summed_logits)
  have shapes: "list_all (\<lambda>x. length x = length img)
                  (tf_gradients (\<lambda>p. map (\<lambda>row. row ! c) (network p False)) path)"
    using assms(2,6,8) by simp
  have cols: "list_all (\<lambda>row. c < length row) (network path False)"
    by (simp add: assms(4,5) list_all_iff)
  let ?maps = "map (\<lambda>x. map2 (*) x ?f) G"
  have "length ?maps \<noteq> 1" using assms(1,7) len_path by simp
  then have sq: "tf_squeeze ?maps = Stacked ?maps" by (rule tf_squeeze_stacked)
  have run: "gradients_model_fn d N network tf_gradients
               \<lparr>images = [img], most_likely_class = c # cs\<rparr> PREDICT =
             Inr \<lparr>pred_path_features = path,
                  pred_path_logits = network path False,
                  pred_target_logits = map (\<lambda>row. row ! c) (network path False),
                  pred_gradients = Stacked ?maps\<rparr>"
    using gradients_model_fn_succeeds [where tf_gradients = tf_gradients and cs = cs
        and network = network and c = c and d = d and N = N and img = img
        and path = path] assms(3) cols shapes sq
    by (simp add: assms(6))
  have each: "list_all (\<lambda>m. length m = length img) ?maps"
    using assms(2,8) by (simp add: list_all_iff)
  have ith: "?maps ! i = map2 (*) (G ! i) (preprocess_images [img] ! 0)"
    using assms(7,9) by (simp add: preprocess_single)
  show ?thesis
    using run each grad ith assms(7)
    by (intro exI [of _ "\<lparr>pred_path_features = path,
                  pred_path_logits = network path False,
                  pred_target_logits = map (\<lambda>row. row ! c) (network path False),
                  pred_gradients = Stacked ?maps\<rparr>"] exI [of _ ?maps]) simp
qed

theorem gradient_map_is_weighted_logit_gradient_witness:
  "path_features 2 1 (preprocess_images [[255, 0]]) = Inr [[0, 0], [1/2, - 1/2]]
   \<and> is_gradient_at
        (\<lambda>x. sum_list (map (\<lambda>row. row ! 1)
               ((\<lambda>b is_training. map (\<lambda>x. [0, sum_list (map abs x)]) b)
                  ([[0, 0], [1/2, - 1/2]][1 := x]) False)))
        [1/2, - 1/2] [1, - 1]
   \<and> (\<exists>preds.
         gradients_model_fn 2 1 (\<lambda>b is_training. map (\<lambda>x. [0, sum_list (map abs x)]) b)
            (\<lambda>ys xs. map (map sgn) xs)
            \<lparr>images = [[255, 0]], most_likely_class = [1]\<rparr> PREDICT = Inr preds
       \<and> pred_gradients preds = Stacked [[0, 0], [1/2, 1/2]]
       \<and> is_gradient_at (\<lambda>x. [0, sum_list (map abs x)] ! 1) [1/2, - 1/2] [1, - 1]
       \<and> [1/2, 1/2] = map2 (*) [1, - 1] (preprocess_images [[255, 0]] ! 0))"
proof -
  let ?network = "\<lambda>(b::batch) (is_training::bool). map (\<lambda>x. [0, sum_list (map abs x)]) b"
  let ?tfg = "\<lambda>(ys::batch \<Rightarrow> real list) (xs::batch). map (map sgn) xs"
  let ?path = "[[0, 0], [1/2, - 1/2 :: real]]"
  have path: "path_features 2 1 (preprocess_images [[255, 0]]) = Inr ?path"
    by (simp add: path_features_def preprocess_images_def tf_zeros_def tf_concat_def
        scale_features_def upto.simps eval_nat_numeral)
  have G: "[[0, 0], [1, - 1]] = ?tfg (\<lambda>p. map (\<lambda>row. row ! 1) (?network p False)) ?path"
    by simp
  have contract: "is_gradient_at
        (\<lambda>x. sum_list (map (\<lambda>row. row ! 1) (?network (?path[1 := x]) False)))
        (?path ! 1) ([[0, 0], [1, - 1]] ! 1)"
    by (auto simp: is_gradient_at_def less_Suc_eq
        intro!: derivative_eq_intros abs_derivative_pos abs_derivative_neg)
  have run: "gradients_model_fn 2 1 ?network ?tfg \<lparr>images = [[255, 0]], most_likely_class = [1]\<rparr> PREDICT
             = Inr \<lparr>pred_path_features = ?path, pred_path_logits = [[0, 0], [0, 1]],
                    pred_target_logits = [0, 1], pred_gradients = Stacked [[0, 0], [1/2, 1/2]]\<rparr>"
    by (simp add: gradients_model_fn_def estimator_spec_def path_features_def preprocess_images_def
        tf_zeros_def tf_concat_def scale_features_def logit_column_def tf_multiply_def
        tf_squeeze_def upto.simps eval_nat_numeral Let_def)
  from gradient_map_is_weighted_logit_gradient
    [of 1 "[255, 0]" 2 ?path ?network "\<lambda>x. [0, sum_list (map abs x)]" 1 "[[0, 0], [1, - 1]]"
        ?tfg 1 "[]", OF _ _ path _ _ G _ _ _ contract]
  obtain preds maps where r:
    "gradients_model_fn 2 1 ?network ?tfg \<lparr>images = [[255, 0]], most_likely_class = [1]\<rparr> PREDICT = Inr preds"
    "pred_gradients preds = Stacked maps"
    "is_gradient_at (\<lambda>x. [0, sum_list (map abs x)] ! 1) (?path ! 1) ([[0, 0], [1, - 1]] ! 1)"
    "maps ! 1 = map2 (*) ([[0, 0], [1, - 1]] ! 1) (preprocess_images [[255, 0]] ! 0)"
    by auto
  from r(1,2) run have m: "maps = [[0, 0], [1/2, 1/2]]" by simp
  from r(3) have g: "is_gradient_at (\<lambda>x. [0, sum_list (map abs x)] ! 1) [1/2, - 1/2] [1, - 1]"
    by simp
  from r(4) m have w: "[1/2, 1/2] = map2 (*) [1, - 1] (preprocess_images [[255, 0]] ! 0)"
    by simp
  from contract have c': "is_gradient_at
        (\<lambda>x. sum_list (map (\<lambda>row. row ! 1) (?network ([[0, 0], [1/2, - 1/2]][1 := x]) False)))
        [1/2, - 1/2] [1, - 1]"
    by simp
  from r(2) m have sg: "pred_gradients preds = Stacked [[0, 0], [1/2, 1/2]]" by simp
  from r(1) sg g w have ex: "\<exists>preds.
         gradients_model_fn 2 1 ?network ?tfg
            \<lparr>images = [[255, 0]], most_likely_class = [1]\<rparr> PREDICT = Inr preds
       \<and> pred_gradients preds = Stacked [[0, 0], [1/2, 1/2]]
       \<and> is_gradient_at (\<lambda>x. [0, sum_list (map abs x)] ! 1) [1/2, - 1/2] [1, - 1]
       \<and> [1/2, 1/2] = map2 (*) [1, - 1] (preprocess_images [[255, 0]] ! 0)"
    by (intro exI [of _ preds] conjI)
  show ?thesis
    using path c' ex by - (rule conjI, assumption, rule conjI, assumption, assumption)
qed

subsection \<open>The accumulation loop\<close>

lemma integration_step_Inr:
  assumes "integration_step dir j s = Inr s'"
  shows "\<exists>g rest. generator s = g # rest \<and> generator s' = rest
           \<and> np_add (int_gradients s) (gd_gradients g) = Inr (int_gradients s')
           \<and> gradients_and_logits s' =
               gradients_and_logits s @ [(np_sum (gd_gradients g), gd_target_logits g)]"
  using assms
  by (auto simp: integration_step_def Let_def split: list.splits sum.splits)

lemma integration_step_succeeds:
  assumes "generator s = g # rest" and "length (gd_gradients g) = length (int_gradients s)"
  shows "\<exists>s'. integration_step dir j s = Inr s' \<and> generator s' = rest
           \<and> int_gradients s' = map2 (+) (int_gradients s) (gd_gradients g)
           \<and> gradients_and_logits s' =
               gradients_and_logits s @ [(np_sum (gd_gradients g), gd_target_logits g)]"
  using assms by (simp add: integration_step_def Let_def np_add_def)

lemma integration_loop_succeeds:
  assumes "length js \<le> length (generator s)"
    and "list_all (\<lambda>g. length (gd_gradients g) = d) (generator s)"
    and "length (int_gradients s) = d"
  shows "\<exists>s'. integration_loop dir js s = Inr s'
           \<and> int_gradients s' =
               foldl (map2 (+)) (int_gradients s) (map gd_gradients (take (length js) (generator s)))
           \<and> gradients_and_logits s' = gradients_and_logits s @
               map (\<lambda>g. (np_sum (gd_gradients g), gd_target_logits g)) (take (length js) (generator s))"
  using assms
proof (induction js arbitrary: s)
  case Nil
  then show ?case by simp
next
  case step: (Cons j js)
  from step.prems(1) obtain g rest where gen: "generator s = g # rest"
    by (cases "generator s") auto
  with step.prems(2,3) have lg: "length (gd_gradients g) = length (int_gradients s)" by simp
  from integration_step_succeeds [OF gen lg, of dir j]
  obtain t where t: "integration_step dir j s = Inr t" "generator t = rest"
    "int_gradients t = map2 (+) (int_gradients s) (gd_gradients g)"
    "gradients_and_logits t = gradients_and_logits s @ [(np_sum (gd_gradients g), gd_target_logits g)]"
    by blast
  have "length js \<le> length (generator t)" using step.prems(1) gen t(2) by simp
  moreover have "list_all (\<lambda>g. length (gd_gradients g) = d) (generator t)"
    using step.prems(2) gen t(2) by simp
  moreover have "length (int_gradients t) = d" using step.prems(3) lg t(3) by simp
  ultimately obtain s' where s': "integration_loop dir js t = Inr s'"
    "int_gradients s' = foldl (map2 (+)) (int_gradients t) (map gd_gradients (take (length js) (generator t)))"
    "gradients_and_logits s' = gradients_and_logits t @
       map (\<lambda>g. (np_sum (gd_gradients g), gd_target_logits g)) (take (length js) (generator t))"
    using step.IH [of t] by blast
  have "integration_loop dir (j # js) s = Inr s'"
    by (simp only: integration_loop.simps t(1) sum.case s'(1))
  with s'(2,3) t gen show ?case by simp
qed

lemma compute_gradients_succeeds:
  assumes "nat (N + 1) \<le> length gen"
    and "list_all (\<lambda>g. length (gd_gradients g) = d) gen"
  shows "\<exists>s. compute_gradients d N dir gen fs = Inr s
           \<and> int_gradients s =
               foldl (map2 (+)) (replicate d 0) (map gd_gradients (take (nat (N + 1)) gen))
           \<and> gradients_and_logits s =
               map (\<lambda>g. (np_sum (gd_gradients g), gd_target_logits g)) (take (nat (N + 1)) gen)"
proof -
  let ?s0 = "\<lparr>generator = gen, int_gradients = replicate d 0, gradients_and_logits = [], files = fs\<rparr>"
  have "length [0..N] \<le> length (generator ?s0)" using assms(1) by simp
  moreover have "list_all (\<lambda>g. length (gd_gradients g) = d) (generator ?s0)"
    using assms(2) by simp
  moreover have "length (int_gradients ?s0) = d" by simp
  ultimately obtain s' where s': "integration_loop dir [0..N] ?s0 = Inr s'"
    "int_gradients s' = foldl (map2 (+)) (int_gradients ?s0) (map gd_gradients (take (length [0..N]) (generator ?s0)))"
    "gradients_and_logits s' = gradients_and_logits ?s0 @
       map (\<lambda>g. (np_sum (gd_gradients g), gd_target_logits g)) (take (length [0..N]) (generator ?s0))"
    using integration_loop_succeeds [of "[0..N]" ?s0 d dir] by blast
  then show ?thesis by (simp add: compute_gradients_def)
qed

lemma sum_list_map2_add:
  "length a = length b \<Longrightarrow> sum_list (map2 (+) a b) = sum_list a + sum_list (b :: real list)"
  by (induction a b rule: list_induct2) simp_all

lemma np_sum_foldl:
  "list_all (\<lambda>g. length g = length z) gs \<Longrightarrow>
   np_sum (foldl (map2 (+)) z gs) = np_sum z + sum_list (map np_sum gs)"
proof (induction gs arbitrary: z)
  case Nil
  then show ?case by simp
next
  case (Cons g gs)
  then have "list_all (\<lambda>h. length h = length (map2 (+) z g)) gs" by simp
  from Cons.IH [OF this] Cons.prems show ?case
    by (simp add: np_sum_def sum_list_map2_add)
qed

lemma integration_loop_zero_pixel:
  assumes "list_all (\<lambda>g. length (gd_gradients g) = d \<and> gd_gradients g ! p = 0) (generator s)"
    and "length (int_gradients s) = d" and "int_gradients s ! p = 0" and "p < d"
    and "integration_loop dir js s = Inr s'"
  shows "int_gradients s' ! p = 0"
  using assms
proof (induction js arbitrary: s)
  case Nil
  then show ?case by simp
next
  case step: (Cons j js)
  from step.prems(5) obtain t where t: "integration_step dir j s = Inr t"
    and l: "integration_loop dir js t = Inr s'"
    by (auto split: sum.splits)
  from integration_step_Inr [OF t] obtain g rest where
    gen: "generator s = g # rest" "generator t = rest"
    and add: "np_add (int_gradients s) (gd_gradients g) = Inr (int_gradients t)"
    by blast
  from step.prems(1) gen have g: "length (gd_gradients g) = d" "gd_gradients g ! p = 0"
    and r: "list_all (\<lambda>g. length (gd_gradients g) = d \<and> gd_gradients g ! p = 0) (generator t)"
    by simp_all
  from add g(1) step.prems(2) have ig: "int_gradients t = map2 (+) (int_gradients s) (gd_gradients g)"
    by (simp add: np_add_def)
  then have "length (int_gradients t) = d" using g(1) step.prems(2) by simp
  moreover have "int_gradients t ! p = 0"
    using ig g step.prems(2,3,4) by simp
  ultimately show ?case using step.IH [OF r _ _ step.prems(4) l] by simp
qed

lemma integration_loop_same_maps:
  assumes "map gd_gradients (generator s1) = map gd_gradients (generator s2)"
    and "int_gradients s1 = int_gradients s2"
  shows "map_sum id int_gradients (integration_loop dir1 js s1) =
         map_sum id int_gradients (integration_loop dir2 js s2)"
  using assms
proof (induction js arbitrary: s1 s2)
  case Nil
  then show ?case by simp
next
  case step: (Cons j js)
  show ?case
  proof (cases "generator s1")
    case Nil
    with step.prems(1) have "generator s2 = []" by simp
    with Nil show ?thesis by (simp add: integration_step_def)
  next
    case (Cons g1 rest1)
    with step.prems(1) obtain g2 rest2 where s2: "generator s2 = g2 # rest2"
      and g: "gd_gradients g1 = gd_gradients g2"
      and r: "map gd_gradients rest1 = map gd_gradients rest2"
      by (cases "generator s2") auto
    show ?thesis
    proof (cases "np_add (int_gradients s1) (gd_gradients g1)")
      case (Inl e)
      with Cons s2 g step.prems(2) show ?thesis
        by (simp add: integration_step_def Let_def)
    next
      case (Inr summed)
      let ?t1 = "\<lparr>generator = rest1, int_gradients = summed,
                  gradients_and_logits = gradients_and_logits s1 @ [(np_sum (gd_gradients g1), gd_target_logits g1)],
                  files = pickle_dump (PArray (gd_gradients g1))
                     (os_path_join dir1 (''path_gradient_'' @ str_int j @ ''.pkl'')) (files s1)\<rparr>"
      let ?t2 = "\<lparr>generator = rest2, int_gradients = summed,
                  gradients_and_logits = gradients_and_logits s2 @ [(np_sum (gd_gradients g2), gd_target_logits g2)],
                  files = pickle_dump (PArray (gd_gradients g2))
                     (os_path_join dir2 (''path_gradient_'' @ str_int j @ ''.pkl'')) (files s2)\<rparr>"
      have st1: "integration_step dir1 j s1 = Inr ?t1"
        using Cons Inr by (simp add: integration_step_def Let_def)
      have st2: "integration_step dir2 j s2 = Inr ?t2"
        using s2 Inr g step.prems(2) by (simp add: integration_step_def Let_def)
      have l1: "integration_loop dir1 (j # js) s1 = integration_loop dir1 js ?t1"
        by (simp only: integration_loop.simps st1 sum.case)
      have l2: "integration_loop dir2 (j # js) s2 = integration_loop dir2 js ?t2"
        by (simp only: integration_loop.simps st2 sum.case)
      have "map_sum id int_gradients (integration_loop dir1 js ?t1) =
            map_sum id int_gradients (integration_loop dir2 js ?t2)"
        by (rule step.IH [of ?t1 ?t2]) (simp_all add: r)
      then show ?thesis by (simp only: l1 l2)
    qed
  qed
qed

text \<open>
  Claim C8. The accumulation is deterministic: two runs of the cell over generators that
  yield the same gradient maps in the same order end alike, with the same integrated
  gradient when they succeed and with the same error otherwise, whatever else the two
  runs differ in (the logits that come with the maps, the output directory, the files
  already there).
\<close>

theorem integration_is_deterministic:
  assumes "map gd_gradients run1 = map gd_gradients run2"
  shows "(\<forall>s1. compute_gradients d N dir1 run1 fs1 = Inr s1 \<longrightarrow>
            (\<exists>s2. compute_gradients d N dir2 run2 fs2 = Inr s2 \<and> int_gradients s2 = int_gradients s1))
         \<and> (\<forall>e. compute_gradients d N dir1 run1 fs1 = Inl e \<longrightarrow>
                compute_gradients d N dir2 run2 fs2 = Inl e)"
proof -
  let ?s1 = "\<lparr>generator = run1, int_gradients = replicate d 0, gradients_and_logits = [], files = fs1\<rparr>"
  let ?s2 = "\<lparr>generator = run2, int_gradients = replicate d 0, gradients_and_logits = [], files = fs2\<rparr>"
  have "map_sum id int_gradients (integration_loop dir1 [0..N] ?s1) =
        map_sum id int_gradients (integration_loop dir2 [0..N] ?s2)"
    by (rule integration_loop_same_maps) (simp_all add: assms)
  then show ?thesis
    by (cases "integration_loop dir1 [0..N] ?s1"; cases "integration_loop dir2 [0..N] ?s2")
       (simp_all add: compute_gradients_def)
qed

theorem integration_is_deterministic_witness:
  "map gd_gradients
     [\<lparr>gd_path_features = [0, 0], gd_path_logits = [1], gd_target_logits = 1, gd_gradients = [1, 2]\<rparr>,
      \<lparr>gd_path_features = [1, 1], gd_path_logits = [3], gd_target_logits = 3, gd_gradients = [3, 4]\<rparr>]
   = map gd_gradients
     [\<lparr>gd_path_features = [], gd_path_logits = [], gd_target_logits = 0, gd_gradients = [1, 2]\<rparr>,
      \<lparr>gd_path_features = [], gd_path_logits = [], gd_target_logits = 0, gd_gradients = [3, 4]\<rparr>]
   \<and> (\<exists>s1 s2.
        compute_gradients 2 1 ''visualization/a''
          [\<lparr>gd_path_features = [0, 0], gd_path_logits = [1], gd_target_logits = 1, gd_gradients = [1, 2]\<rparr>,
           \<lparr>gd_path_features = [1, 1], gd_path_logits = [3], gd_target_logits = 3, gd_gradients = [3, 4]\<rparr>]
          Map.empty = Inr s1
        \<and> compute_gradients 2 1 ''visualization/b''
          [\<lparr>gd_path_features = [], gd_path_logits = [], gd_target_logits = 0, gd_gradients = [1, 2]\<rparr>,
           \<lparr>gd_path_features = [], gd_path_logits = [], gd_target_logits = 0, gd_gradients = [3, 4]\<rparr>]
          (Map.empty(''visualization/b/int_gradients.pkl'' \<mapsto> PArray [7]))= Inr s2
        \<and> int_gradients s1 = [4, 6] \<and> int_gradients s2 = int_gradients s1)"
proof -
  let ?run1 = "[\<lparr>gd_path_features = [0, 0], gd_path_logits = [1], gd_target_logits = 1, gd_gradients = [1, 2]\<rparr>,
      \<lparr>gd_path_features = [1, 1], gd_path_logits = [3], gd_target_logits = 3, gd_gradients = [3, 4 :: real]\<rparr>]"
  let ?run2 = "[\<lparr>gd_path_features = [], gd_path_logits = [], gd_target_logits = 0, gd_gradients = [1, 2]\<rparr>,
      \<lparr>gd_path_features = [], gd_path_logits = [], gd_target_logits = 0, gd_gradients = [3, 4 :: real]\<rparr>]"
  have same: "map gd_gradients ?run1 = map gd_gradients ?run2" by simp
  obtain s1 where s1: "compute_gradients 2 1 ''visualization/a'' ?run1 Map.empty = Inr s1"
    "int_gradients s1 = foldl (map2 (+)) (replicate 2 0) (map gd_gradients (take (nat (1 + 1)) ?run1))"
    using compute_gradients_succeeds [of 1 ?run1 2 "''visualization/a''" Map.empty] by auto
  from s1(2) have v: "int_gradients s1 = [4, 6]" by (simp add: eval_nat_numeral)
  from integration_is_deterministic [OF same, of 2 1 "''visualization/a''" Map.empty
      "''visualization/b''" "Map.empty(''visualization/b/int_gradients.pkl'' \<mapsto> PArray [7])"] s1(1)
  obtain s2 where "compute_gradients 2 1 ''visualization/b'' ?run2
      (Map.empty(''visualization/b/int_gradients.pkl'' \<mapsto> PArray [7])) = Inr s2"
      "int_gradients s2 = int_gradients s1"
    by blast
  with same s1(1) v show ?thesis by blast
qed

text \<open>
  Claim C9. A pixel whose raw value is 127.5 is zero in the normalised image, so every
  gradient map that the model function returns is zero at that pixel, and so is the
  integrated gradient that the accumulation loop computes from these maps.
\<close>

theorem gradient_zero_at_grey_pixels:
  assumes "gradients_model_fn d N network tf_gradients
             \<lparr>images = [img], most_likely_class = cs\<rparr> mode = Inr preds"
    and "length img = d" and "p < d" and "img ! p = 127.5"
  shows "list_all (\<lambda>m. length m = d \<and> m ! p = 0) (gradient_maps (pred_gradients preds))
         \<and> (\<forall>gen dir fs s.
               map gd_gradients gen = gradient_maps (pred_gradients preds)
               \<and> compute_gradients d N dir gen fs = Inr s
               \<longrightarrow> int_gradients s ! p = 0)"
proof -
  let ?f = "map (\<lambda>v. v / 255 - 0.5) img"
  from gradients_model_fn_single [OF assms(1)] obtain G where
    G: "list_all (\<lambda>x. length x = length img) G"
    and maps: "gradient_maps (pred_gradients preds) = map (\<lambda>x. map2 (*) x ?f) G"
    by blast
  have fp: "?f ! p = 0" using assms(2,3,4) by simp
  have each: "list_all (\<lambda>m. length m = d \<and> m ! p = 0) (gradient_maps (pred_gradients preds))"
    unfolding maps using G assms(2,3) fp by (auto simp: list_all_iff)
  have "int_gradients s ! p = 0"
    if gen: "map gd_gradients gen = gradient_maps (pred_gradients preds)"
      and run: "compute_gradients d N dir gen fs = Inr s" for gen dir fs s
  proof -
    let ?s0 = "\<lparr>generator = gen, int_gradients = replicate d 0, gradients_and_logits = [], files = fs\<rparr>"
    from run obtain s' where loop: "integration_loop dir [0..N] ?s0 = Inr s'"
      and s: "int_gradients s = int_gradients s'"
      by (auto simp: compute_gradients_def split: sum.splits)
    have "list_all (\<lambda>m. length m = d \<and> m ! p = 0) (map gd_gradients gen)"
      using each gen by simp
    then have "list_all (\<lambda>g. length (gd_gradients g) = d \<and> gd_gradients g ! p = 0) (generator ?s0)"
      by (simp add: list_all_iff)
    from integration_loop_zero_pixel [OF this _ _ assms(3) loop] assms(3) s
    show ?thesis by simp
  qed
  with each show ?thesis by blast
qed

theorem gradient_zero_at_grey_pixels_witness:
  "\<exists>preds s.
     gradients_model_fn 2 1 (\<lambda>b is_training. map (\<lambda>x. [0, sum_list x]) b)
        (\<lambda>ys xs. map (map (\<lambda>_. 1)) xs)
        \<lparr>images = [[127.5, 255]], most_likely_class = [1]\<rparr> PREDICT = Inr preds
     \<and> length [127.5, 255 :: real] = 2 \<and> (0::nat) < 2 \<and> [127.5, 255 :: real] ! 0 = 127.5
     \<and> gradient_maps (pred_gradients preds) = [[0, 1/2], [0, 1/2]]
     \<and> map gd_gradients
          [\<lparr>gd_path_features = [0, 0], gd_path_logits = [0, 0], gd_target_logits = 0, gd_gradients = [0, 1/2]\<rparr>,
           \<lparr>gd_path_features = [0, 1/2], gd_path_logits = [0, 1/2], gd_target_logits = 1/2, gd_gradients = [0, 1/2]\<rparr>]
         = gradient_maps (pred_gradients preds)
     \<and> compute_gradients 2 1 ''visualization/a''
          [\<lparr>gd_path_features = [0, 0], gd_path_logits = [0, 0], gd_target_logits = 0, gd_gradients = [0, 1/2]\<rparr>,
           \<lparr>gd_path_features = [0, 1/2], gd_path_logits = [0, 1/2], gd_target_logits = 1/2, gd_gradients = [0, 1/2]\<rparr>]
          Map.empty = Inr s
     \<and> int_gradients s = [0, 1]
     \<and> int_gradients s ! 0 = 0"
proof -
  let ?net = "\<lambda>(b::batch) (is_training::bool). map (\<lambda>x. [0, sum_list x]) b"
  let ?tfg = "\<lambda>(ys::batch \<Rightarrow> real list) (xs::batch). map (map (\<lambda>_. 1::real)) xs"
  let ?gen = "[\<lparr>gd_path_features = [0, 0], gd_path_logits = [0, 0], gd_target_logits = 0, gd_gradients = [0, 1/2]\<rparr>,
           \<lparr>gd_path_features = [0, 1/2], gd_path_logits = [0, 1/2], gd_target_logits = 1/2, gd_gradients = [0, 1/2 :: real]\<rparr>]"
  let ?preds = "\<lparr>pred_path_features = [[0, 0], [0, 1/2]], pred_path_logits = [[0, 0], [0, 1/2]],
                 pred_target_logits = [0, 1/2], pred_gradients = Stacked [[0, 1/2], [0, 1/2]]\<rparr>"
  have run: "gradients_model_fn 2 1 ?net ?tfg \<lparr>images = [[127.5, 255]], most_likely_class = [1]\<rparr> PREDICT
             = Inr ?preds"
    by (simp add: gradients_model_fn_def estimator_spec_def path_features_def preprocess_images_def tf_zeros_def
        tf_concat_def scale_features_def logit_column_def tf_multiply_def tf_squeeze_def
        upto.simps eval_nat_numeral Let_def)
  have maps: "gradient_maps (pred_gradients ?preds) = [[0, 1/2], [0, 1/2]]"
    by (simp add: gradient_maps_def)
  obtain s where s: "compute_gradients 2 1 ''visualization/a'' ?gen Map.empty = Inr s"
    "int_gradients s = foldl (map2 (+)) (replicate 2 0) (map gd_gradients (take (nat (1 + 1)) ?gen))"
    using compute_gradients_succeeds [of 1 ?gen 2 "''visualization/a''" Map.empty] by auto
  from s(2) have v: "int_gradients s = [0, 1]" by (simp add: eval_nat_numeral)
  have "\<forall>gen dir fs s.
          map gd_gradients gen = gradient_maps (pred_gradients ?preds)
          \<and> compute_gradients 2 1 dir gen fs = Inr s
          \<longrightarrow> int_gradients s ! 0 = 0"
    using gradient_zero_at_grey_pixels [OF run, of 0] by simp
  then have "map gd_gradients ?gen = gradient_maps (pred_gradients ?preds)
          \<and> compute_gradients 2 1 ''visualization/a'' ?gen Map.empty = Inr s
          \<longrightarrow> int_gradients s ! 0 = 0"
    by blast
  with maps s(1) have "int_gradients s ! 0 = 0" by simp
  with run maps s(1) v show ?thesis by simp
qed

subsection \<open>The sanity check\<close>

text \<open>
  Claim C1 says that the value printed as "sum of integrated gradients" is the sum of all
  gradient maps over all pixels, divided by \<open>RIEMANN_STEPS\<close>. The source prints that
  quotient plus one. With \<open>RIEMANN_STEPS = 30\<close> and 31 gradient maps of two pixels, each
  pixel 1, the sum is 62 and the quotient 31/15; the value printed is 46/15 (next to a
  logit difference of 0, all logits of the run being 0).
\<close>

theorem sanity_print_is_mean_plus_one:
  "\<exists>s. compute_gradients 2 RIEMANN_STEPS ''visualization/cat''
          (replicate 31 \<lparr>gd_path_features = [0, 0], gd_path_logits = [0], gd_target_logits = 0,
                          gd_gradients = [1, 1]\<rparr>) Map.empty = Inr s
       \<and> np_sum (int_gradients s) = 62
       \<and> np_sum (int_gradients s) / real_of_int RIEMANN_STEPS = 31 / 15
       \<and> total_logit_diff RIEMANN_STEPS (gradients_and_logits s) = Inr 0
       \<and> sum_of_integrated_gradients RIEMANN_STEPS (int_gradients s) = Val (46 / 15)"
proof -
  let ?gd = "\<lparr>gd_path_features = [0, 0], gd_path_logits = [0], gd_target_logits = 0,
              gd_gradients = [1, 1 :: real]\<rparr>"
  obtain s where s: "compute_gradients 2 RIEMANN_STEPS ''visualization/cat'' (replicate 31 ?gd) Map.empty = Inr s"
    "int_gradients s = foldl (map2 (+)) (replicate 2 0)
        (map gd_gradients (take (nat (RIEMANN_STEPS + 1)) (replicate 31 ?gd)))"
    "gradients_and_logits s =
        map (\<lambda>g. (np_sum (gd_gradients g), gd_target_logits g))
          (take (nat (RIEMANN_STEPS + 1)) (replicate 31 ?gd))"
    using compute_gradients_succeeds [of RIEMANN_STEPS "replicate 31 ?gd" 2 "''visualization/cat''" Map.empty]
    by (auto simp: RIEMANN_STEPS_def list_all_length)
  have "np_sum (int_gradients s) = np_sum (replicate 2 0) + sum_list (map np_sum (replicate 31 [1, 1]))"
    unfolding s(2) by (subst np_sum_foldl) (simp_all add: RIEMANN_STEPS_def list_all_length)
  then have sum: "np_sum (int_gradients s) = 62"
    by (simp add: np_sum_def sum_list_replicate)
  then have printed: "sum_of_integrated_gradients RIEMANN_STEPS (int_gradients s) = Val (46 / 15)"
    by (simp add: sum_of_integrated_gradients_def np_truediv_def RIEMANN_STEPS_def)
  have "gradients_and_logits s = replicate 31 (np_sum [1, 1], 0)"
    unfolding s(3) by (simp add: RIEMANN_STEPS_def)
  then have diff: "total_logit_diff RIEMANN_STEPS (gradients_and_logits s) = Inr 0"
    by (simp add: total_logit_diff_def py_index_def RIEMANN_STEPS_def)
  from s(1) sum printed diff show ?thesis by (auto simp: RIEMANN_STEPS_def)
qed

subsection \<open>Visualisation of a constant gradient map\<close>

lemma fold_min_replicate: "fold min (replicate m c) (c::real) = c"
  by (induction m) (simp_all del: fold_replicate)

lemma fold_max_replicate: "fold max (replicate m c) (c::real) = c"
  by (induction m) (simp_all del: fold_replicate)

lemma np_min_replicate: "0 < n \<Longrightarrow> np_min (replicate n c) = Inr c"
  by (cases n) (simp_all add: np_min_def fold_min_replicate del: fold_replicate)

lemma np_max_replicate: "0 < n \<Longrightarrow> np_max (replicate n c) = Inr c"
  by (cases n) (simp_all add: np_max_def fold_max_replicate del: fold_replicate)

lemma sort_constant: "sort (replicate n (c::real)) = replicate n c"
  by (simp add: sort_key_id_if_sorted)

lemma np_median_replicate:
  assumes "0 < n"
  shows "np_median (replicate n c) = Val c"
proof -
  have "n div 2 < n" "n div 2 - 1 < n" using assms by simp_all
  then show ?thesis
    using assms by (simp add: np_median_def sort_constant Let_def)
qed

lemma constant_list_replicate:
  "list_all (\<lambda>x. x = c) xs \<Longrightarrow> xs = replicate (length xs) c"
  by (induction xs) simp_all

text \<open>
  Claim C6 says that for a constant gradient map the normalisation does not divide by
  zero: it falls back to a guarded result or fails with an error. The source has neither
  guard nor check; for the map of two pixels of value 1 both arrays handed to the plot are
  \<open>nan\<close> throughout, and no error is raised.
\<close>

theorem constant_gradient_map_counterexample:
  "gradient_visualization [1, 1] = Inr ([NaN, NaN], [NaN, NaN])"
  by (simp add: gradient_visualization_def np_min_def np_max_def np_median_def
      np_truediv_def AMPLIFICATION_def Let_def)

text \<open>
  Claim C6, as the code has it. For every gradient map that is not empty and whose pixels
  all have one value, both normalisations divide zero by zero at every pixel: no error is
  raised, and both arrays handed to the plot are \<open>nan\<close> at every pixel.
\<close>

theorem constant_gradient_map_gives_nan:
  assumes "gradient_map \<noteq> []" and "list_all (\<lambda>x. x = c) gradient_map"
  shows "gradient_visualization gradient_map =
         Inr (replicate (length gradient_map) NaN, replicate (length gradient_map) NaN)"
proof -
  define n where "n = length gradient_map"
  have n: "0 < n" using assms(1) by (simp add: n_def)
  have g: "gradient_map = replicate n c"
    unfolding n_def using assms(2) by (rule constant_list_replicate)
  show ?thesis
    unfolding g
    by (simp add: gradient_visualization_def np_min_replicate [OF n] np_max_replicate [OF n]
        np_median_replicate [OF n] np_truediv_def)
qed

theorem constant_gradient_map_gives_nan_witness:
  "[3, 3, 3 :: real] \<noteq> [] \<and> list_all (\<lambda>x. x = 3) [3, 3, 3 :: real]
   \<and> gradient_visualization [3, 3, 3] = Inr ([NaN, NaN, NaN], [NaN, NaN, NaN])"
  using constant_gradient_map_gives_nan [of "[3, 3, 3]" 3] by (simp add: eval_nat_numeral)

end
